theory Spec2Isabelle
  imports Complex_Main "HOL-Library.FSet" "HOL-Library.Finite_Map" "HOL-Library.Sublist"
begin

section \<open>Time\<close>

text \<open>
  A Python \<^verbatim>\<open>datetime\<close> is an instant with microsecond resolution and a
  \<^verbatim>\<open>timedelta\<close> an exact number of microseconds, so both are integers
  counting microseconds. Every call of \<^verbatim>\<open>datetime.now()\<close> becomes an argument
  of the function that makes the call. The year range of \<^verbatim>\<open>datetime\<close>
  (an \<^verbatim>\<open>OverflowError\<close> beyond year 9999) is outside the model.
\<close>

type_synonym datetime = int

definition timedelta_hours :: "int \<Rightarrow> int" where
  "timedelta_hours h = h * 3600000000"

text \<open>
  \<^verbatim>\<open>int(delta.total_seconds())\<close>: whole seconds, truncated towards zero.
\<close>

definition total_seconds_int :: "int \<Rightarrow> int" where
  "total_seconds_int d = (if 0 \<le> d then d div 1000000 else - ((- d) div 1000000))"

section \<open>models/tutorial\_session.py\<close>

datatype WorkflowState =
  INITIAL | AUDIO_UPLOADED | CONTENT_ADDED | PROCESSING | COMPLETED | ERROR

datatype error =
  SessionNotFoundError
  | SessionStorageError
  | ConcurrencyLimitError
  | StorageQuotaExceededError
  | FileLockTimeoutError
  | ValueError
  | KeyError
  | OSError

type_synonym path = "string list"

record UserPreferences =
  preferred_voice :: string
  summary_style :: string
  emphasis_areas :: "string list"
  custom_terminology :: "(string, string) fmap"

definition UserPreferences_default :: UserPreferences where
  "UserPreferences_default =
     \<lparr>preferred_voice = ''professional_female'', summary_style = ''conversational'',
      emphasis_areas = [], custom_terminology = fmempty\<rparr>"

text \<open>
  The \<^verbatim>\<open>preferences\<close> dictionary handed to \<^verbatim>\<open>create_new\<close>, reduced to the
  four keys the function reads; a key that is absent is \<open>None\<close>.
\<close>

record preferences_dict =
  pd_preferred_voice :: "string option"
  pd_summary_style :: "string option"
  pd_emphasis_areas :: "string list option"
  pd_custom_terminology :: "(string, string) fmap option"

record TutorialSession =
  session_id :: string
  state :: WorkflowState
  created_at :: datetime
  last_updated :: datetime
  expires_at :: datetime
  user_agent :: string
  user_preferences :: UserPreferences
  workspace_path :: "path option"

text \<open>
  \<^verbatim>\<open>if preferences:\<close> skips \<open>None\<close> and the empty dictionary; on the empty
  dictionary every \<^verbatim>\<open>get\<close> returns the default that is already there, so the
  two cases agree.
\<close>

definition parse_preferences :: "preferences_dict option \<Rightarrow> UserPreferences" where
  "parse_preferences preferences =
     (case preferences of
        None \<Rightarrow> UserPreferences_default
      | Some d \<Rightarrow>
          \<lparr>preferred_voice =
             (case pd_preferred_voice d of
                None \<Rightarrow> preferred_voice UserPreferences_default | Some v \<Rightarrow> v),
           summary_style =
             (case pd_summary_style d of
                None \<Rightarrow> summary_style UserPreferences_default | Some v \<Rightarrow> v),
           emphasis_areas = (case pd_emphasis_areas d of None \<Rightarrow> [] | Some v \<Rightarrow> v),
           custom_terminology =
             (case pd_custom_terminology d of None \<Rightarrow> fmempty | Some v \<Rightarrow> v)\<rparr>)"

text \<open>
  \<^verbatim>\<open>TutorialSession.create_new\<close>; \<open>now\<close> is the clock reading and \<open>uuid\<close> the
  identifier drawn by \<^verbatim>\<open>uuid.uuid4()\<close>.
\<close>

definition create_new ::
  "datetime \<Rightarrow> string \<Rightarrow> string \<Rightarrow> preferences_dict option \<Rightarrow> int \<Rightarrow> TutorialSession" where
  "create_new now uuid ua preferences session_timeout_hours =
     \<lparr>session_id = uuid, state = INITIAL, created_at = now, last_updated = now,
      expires_at = now + timedelta_hours session_timeout_hours, user_agent = ua,
      user_preferences = parse_preferences preferences, workspace_path = None\<rparr>"

fun valid_transitions :: "WorkflowState \<Rightarrow> WorkflowState list" where
  "valid_transitions INITIAL = [AUDIO_UPLOADED, ERROR]"
| "valid_transitions AUDIO_UPLOADED = [CONTENT_ADDED, PROCESSING, ERROR]"
| "valid_transitions CONTENT_ADDED = [PROCESSING, ERROR]"
| "valid_transitions PROCESSING = [COMPLETED, ERROR]"
| "valid_transitions COMPLETED = [INITIAL, ERROR]"
| "valid_transitions ERROR = [PROCESSING, INITIAL]"

definition is_valid_state_transition :: "WorkflowState \<Rightarrow> WorkflowState \<Rightarrow> bool" where
  "is_valid_state_transition current new \<longleftrightarrow> new \<in> set (valid_transitions current)"

text \<open>
  \<^verbatim>\<open>update_state\<close> mutates the session or raises \<^verbatim>\<open>ValueError\<close>: the model
  returns the outcome together with the session as it is afterwards.
\<close>

definition update_state ::
  "TutorialSession \<Rightarrow> WorkflowState \<Rightarrow> datetime \<Rightarrow> (error + unit) \<times> TutorialSession" where
  "update_state s new_state now =
     (if \<not> is_valid_state_transition (state s) new_state then (Inl ValueError, s)
      else (Inr (), s\<lparr>state := new_state, last_updated := now\<rparr>))"

definition is_expired :: "TutorialSession \<Rightarrow> datetime \<Rightarrow> bool" where
  "is_expired s now \<longleftrightarrow> now > expires_at s"

text \<open>
  \<^verbatim>\<open>extend_expiration\<close> reads the clock twice: \<open>now1\<close> for the new deadline,
  \<open>now2\<close> for \<^verbatim>\<open>last_updated\<close>.
\<close>

definition extend_expiration ::
  "TutorialSession \<Rightarrow> int \<Rightarrow> datetime \<Rightarrow> datetime \<Rightarrow> TutorialSession" where
  "extend_expiration s additional_hours now1 now2 =
     s\<lparr>expires_at := now1 + timedelta_hours additional_hours, last_updated := now2\<rparr>"

text \<open>
  The table of legal edges as the specification lists it, to be compared with
  \<open>is_valid_state_transition\<close>.
\<close>

definition legal_edges :: "(WorkflowState \<times> WorkflowState) set" where
  "legal_edges =
     {(INITIAL, AUDIO_UPLOADED), (INITIAL, ERROR),
      (AUDIO_UPLOADED, CONTENT_ADDED), (AUDIO_UPLOADED, PROCESSING), (AUDIO_UPLOADED, ERROR),
      (CONTENT_ADDED, PROCESSING), (CONTENT_ADDED, ERROR),
      (PROCESSING, COMPLETED), (PROCESSING, ERROR),
      (COMPLETED, INITIAL), (COMPLETED, ERROR),
      (ERROR, PROCESSING), (ERROR, INITIAL)}"

section \<open>models/session\_data.py\<close>

text \<open>
  The members of \<^verbatim>\<open>ProcessingStatusType\<close> carry the prefix \<open>PS_\<close>: three of
  them have the names of workflow states.
\<close>

datatype ProcessingStatusType = PS_PENDING | PS_PROCESSING | PS_COMPLETED | PS_ERROR

record ProcessingStatus =
  task_id :: string
  status :: ProcessingStatusType
  progress :: int
  current_step :: string
  start_time :: datetime
  estimated_completion :: "datetime option"
  processing_time_seconds :: "int option"
  error_message :: "string option"


text \<open>
  \<^verbatim>\<open>update_progress\<close> clamps the stored progress but tests the unclamped argument.
\<close>

definition update_progress :: "ProcessingStatus \<Rightarrow> int \<Rightarrow> string \<Rightarrow> datetime \<Rightarrow> ProcessingStatus" where
  "update_progress ps p step now =
     (let ps1 = ps\<lparr>progress := max 0 (min 100 p), current_step := step\<rparr>
      in if p \<ge> 100
         then ps1\<lparr>status := PS_COMPLETED,
                  processing_time_seconds := Some (total_seconds_int (now - start_time ps1))\<rparr>
         else ps1)"



text \<open>
  The gauges of \<^verbatim>\<open>ResourceUsage\<close> are Python floats that are only stored and read
  back, never computed with; they are modelled as reals. Its third field is renamed
  \<open>ru_processing_time_seconds\<close>, and the \<^verbatim>\<open>current_step\<close> of
  \<^verbatim>\<open>SessionData\<close> is \<open>sd_current_step\<close>, since \<^verbatim>\<open>ProcessingStatus\<close> has
  fields of both names.
\<close>

record ResourceUsage =
  memory_usage_mb :: real
  storage_usage_mb :: real
  ru_processing_time_seconds :: real

record SessionData =
  sd_current_step :: string
  progress_percentage :: int
  error_log :: "string list"
  processing_status :: "ProcessingStatus option"
  resource_usage :: ResourceUsage

text \<open>\<^verbatim>\<open>SessionData()\<close> with every field at its default.\<close>

definition SessionData_default :: SessionData where
  "SessionData_default =
     \<lparr>sd_current_step = ''Session initialized'', progress_percentage = 0, error_log = [],
      processing_status = None,
      resource_usage =
        \<lparr>memory_usage_mb = 0, storage_usage_mb = 0, ru_processing_time_seconds = 0\<rparr>\<rparr>"

text \<open>
  \<^verbatim>\<open>SessionData.complete_processing\<close> and \<^verbatim>\<open>SessionData.update_progress\<close>, the
  two callers of \<^verbatim>\<open>ProcessingStatus.update_progress\<close>.
\<close>

definition sd_update_progress :: "SessionData \<Rightarrow> int \<Rightarrow> string \<Rightarrow> datetime \<Rightarrow> SessionData" where
  "sd_update_progress d p step now =
     (let d1 = d\<lparr>progress_percentage := max 0 (min 100 p), sd_current_step := step\<rparr>
      in case processing_status d1 of
           None \<Rightarrow> d1
         | Some ps \<Rightarrow> d1\<lparr>processing_status := Some (update_progress ps p step now)\<rparr>)"

definition complete_processing :: "SessionData \<Rightarrow> datetime \<Rightarrow> SessionData" where
  "complete_processing d now =
     (let d1 = (case processing_status d of
                  None \<Rightarrow> d
                | Some ps \<Rightarrow>
                    d\<lparr>processing_status :=
                        Some (update_progress ps 100 ''Processing completed'' now)\<rparr>)
      in d1\<lparr>progress_percentage := 100, sd_current_step := ''Completed''\<rparr>)"

section \<open>services/session\_manager: the workspace store\<close>

text \<open>
  The directory tree under the storage root is a finite map from paths (lists of
  components, relative to the root) to nodes; a file is represented by its size in
  bytes, the only thing the manager ever reads of it. The root itself is created by the
  constructor and never removed, so it is not an entry of the map. Directory
  operations (\<^verbatim>\<open>mkdir\<close>, \<^verbatim>\<open>rmtree\<close>, \<^verbatim>\<open>unlink\<close>, writing the metadata file)
  are taken to succeed; the failures of reading and writing the uploaded stream are
  modelled, in \<open>save_large_file\<close>.
\<close>

datatype node = Dir | File nat

type_synonym filesystem = "(path, node) fmap"

definition path_exists :: "filesystem \<Rightarrow> path \<Rightarrow> bool" where
  "path_exists fsys p \<longleftrightarrow> p |\<in>| fmdom fsys"

text \<open>\<^verbatim>\<open>p.mkdir(parents=True, exist_ok=True)\<close>: every missing ancestor, then \<open>p\<close>.\<close>

definition mkdir_parents :: "filesystem \<Rightarrow> path \<Rightarrow> filesystem" where
  "mkdir_parents fsys p =
     fold (\<lambda>q f. if q |\<in>| fmdom f then f else fmupd q Dir f) (tl (prefixes p)) fsys"

definition rmtree :: "filesystem \<Rightarrow> path \<Rightarrow> filesystem" where
  "rmtree fsys p = fmfilter (\<lambda>q. \<not> prefix p q) fsys"

definition unlink :: "filesystem \<Rightarrow> path \<Rightarrow> filesystem" where
  "unlink fsys p = fmdrop p fsys"

fun file_bytes :: "node option \<Rightarrow> nat" where
  "file_bytes (Some (File n)) = n"
| "file_bytes (Some Dir) = 0"
| "file_bytes None = 0"

text \<open>
  The loop over \<^verbatim>\<open>p.rglob('*')\<close> that adds \<^verbatim>\<open>st_size\<close> of every regular file
  below \<open>p\<close>.
\<close>

definition rglob_size :: "filesystem \<Rightarrow> path \<Rightarrow> nat" where
  "rglob_size fsys p =
     (\<Sum>q \<in> fset (fmdom fsys). if strict_prefix p q then file_bytes (fmlookup fsys q) else 0)"

section \<open>services/session\_manager: the manager\<close>

definition MAX_CONCURRENT_SESSIONS :: nat where
  "MAX_CONCURRENT_SESSIONS = 5"

definition MAX_SESSION_STORAGE :: int where
  "MAX_SESSION_STORAGE = 100 * 1024 * 1024"

definition MAX_TOTAL_STORAGE :: int where
  "MAX_TOTAL_STORAGE = 1024 * 1024 * 1024"

definition STREAMING_CHUNK_SIZE :: nat where
  "STREAMING_CHUNK_SIZE = 1024 * 1024"

text \<open>
  The state of an \<^verbatim>\<open>EnhancedSessionManager\<close>: its three dictionaries, the tree
  under its storage root, and the daemon threads that \<^verbatim>\<open>cleanup_with_grace_period\<close>
  has started (session and grace minutes), each of which will run \<open>delayed_cleanup\<close>
  once its sleep is over. The re-entrant lock is held through every method that
  touches the dictionaries, so the methods are modelled as atomic steps.
\<close>

record manager =
  active_sessions :: "(string, TutorialSession) fmap"
  session_data :: "(string, SessionData) fmap"
  processing_files :: "(string, string fset) fmap"
  fs :: filesystem
  deferred :: "(string \<times> int) list"

definition manager_init :: manager where
  "manager_init =
     \<lparr>active_sessions = fmempty, session_data = fmempty, processing_files = fmempty,
      fs = fmempty, deferred = []\<rparr>"

text \<open>
  \<^verbatim>\<open>processing_files\<close> is a \<^verbatim>\<open>defaultdict(set)\<close>: reading a key that is
  missing stores an empty set under it and returns that set.
\<close>

definition processing_files_get ::
  "(string, string fset) fmap \<Rightarrow> string \<Rightarrow> string fset \<times> (string, string fset) fmap" where
  "processing_files_get pf sid =
     (case fmlookup pf sid of
        Some s \<Rightarrow> (s, pf)
      | None \<Rightarrow> ({||}, fmupd sid {||} pf))"

definition busy_tag :: "string \<Rightarrow> string \<Rightarrow> string" where
  "busy_tag file_path service_name = file_path @ '':'' @ service_name"

definition mark_file_processing :: "manager \<Rightarrow> string \<Rightarrow> string \<Rightarrow> string \<Rightarrow> bool \<times> manager" where
  "mark_file_processing m sid file_path service_name =
     (let (s, pf) = processing_files_get (processing_files m) sid
      in (True, m\<lparr>processing_files := fmupd sid (finsert (busy_tag file_path service_name) s) pf\<rparr>))"

definition unmark_file_processing :: "manager \<Rightarrow> string \<Rightarrow> string \<Rightarrow> string \<Rightarrow> bool \<times> manager" where
  "unmark_file_processing m sid file_path service_name =
     (let (s, pf) = processing_files_get (processing_files m) sid
      in (True, m\<lparr>processing_files := fmupd sid (s |-| {|busy_tag file_path service_name|}) pf\<rparr>))"

definition can_cleanup_session :: "manager \<Rightarrow> string \<Rightarrow> bool \<times> manager" where
  "can_cleanup_session m sid =
     (let (s, pf) = processing_files_get (processing_files m) sid
      in (fcard s = 0, m\<lparr>processing_files := pf\<rparr>))"

definition get_session_path :: "string \<Rightarrow> path" where
  "get_session_path sid = [''sessions'', sid]"

definition get_session_storage_size :: "manager \<Rightarrow> string \<Rightarrow> nat" where
  "get_session_storage_size m sid =
     (let session_path = get_session_path sid
      in if \<not> path_exists (fs m) session_path then 0 else rglob_size (fs m) session_path)"

definition get_total_storage_size :: "manager \<Rightarrow> nat" where
  "get_total_storage_size m = rglob_size (fs m) []"

text \<open>The two stubs of the source: both ignore their argument.\<close>

definition estimate_stream_size :: "'a \<Rightarrow> int" where
  "estimate_stream_size file_stream = 0"

definition cleanup_oldest_sessions :: "manager \<Rightarrow> int \<Rightarrow> int \<times> manager" where
  "cleanup_oldest_sessions m space_needed = (0, m)"

definition check_storage_quota :: "manager \<Rightarrow> string \<Rightarrow> int \<Rightarrow> bool \<times> manager" where
  "check_storage_quota m sid file_size =
     (let current_session_size = int (get_session_storage_size m sid);
          current_total_size = int (get_total_storage_size m)
      in if current_session_size + file_size > MAX_SESSION_STORAGE then (False, m)
         else if current_total_size + file_size > MAX_TOTAL_STORAGE then
           (let (freed, m1) = cleanup_oldest_sessions m file_size
            in (int (get_total_storage_size m1) + file_size \<le> MAX_TOTAL_STORAGE, m1))
         else (True, m))"

text \<open>
  \<^verbatim>\<open>cleanup_session_files\<close>: with \<^verbatim>\<open>force\<close> set, the busy-set is not read.
\<close>

definition cleanup_session_files :: "manager \<Rightarrow> string \<Rightarrow> bool \<Rightarrow> bool \<times> manager" where
  "cleanup_session_files m sid force =
     (let (blocked, m1) =
            (if \<not> force then (let (ok, m') = can_cleanup_session m sid in (\<not> ok, m'))
             else (False, m))
      in if blocked then (False, m1)
         else
           (let session_path = get_session_path sid
            in (True,
                m1\<lparr>fs := (if path_exists (fs m1) session_path
                           then rmtree (fs m1) session_path else fs m1)\<rparr>)))"

text \<open>
  \<^verbatim>\<open>cleanup_with_grace_period\<close> starts the daemon thread and returns; the thread's
  body, which runs after the sleep, is \<open>delayed_cleanup\<close>.
\<close>

definition cleanup_with_grace_period :: "manager \<Rightarrow> string \<Rightarrow> int \<Rightarrow> manager" where
  "cleanup_with_grace_period m sid grace_minutes =
     (let (ok, m1) = can_cleanup_session m sid
      in if \<not> ok then m1\<lparr>deferred := deferred m1 @ [(sid, grace_minutes)]\<rparr>
         else snd (cleanup_session_files m1 sid False))"

definition delayed_cleanup :: "manager \<Rightarrow> string \<Rightarrow> int \<Rightarrow> manager" where
  "delayed_cleanup m sid grace_minutes =
     (let m0 = m\<lparr>deferred := remove1 (sid, grace_minutes) (deferred m)\<rparr>;
          (ok, m1) = can_cleanup_session m0 sid
      in if ok then snd (cleanup_session_files m1 sid True) else m1)"

definition end_session :: "manager \<Rightarrow> string \<Rightarrow> bool \<times> manager" where
  "end_session m sid =
     (let (ok, m1) = can_cleanup_session m sid
      in if \<not> ok then (True, cleanup_with_grace_period m1 sid 5)
         else
           (let m2 = m1\<lparr>active_sessions := fmdrop sid (active_sessions m1),
                        session_data := fmdrop sid (session_data m1),
                        processing_files := fmdrop sid (processing_files m1)\<rparr>
            in cleanup_session_files m2 sid False))"

definition create_session_workspace :: "manager \<Rightarrow> string \<Rightarrow> path \<times> manager" where
  "create_session_workspace m sid =
     (let session_path = get_session_path sid;
          subdirs = [ [''metadata''], [''files'', ''audio'', ''original''],
                     [''files'', ''audio'', ''processed''], [''files'', ''pdfs''],
                     [''files'', ''generated'', ''scripts''],
                     [''files'', ''generated'', ''audio''], [''temp''], [''logs''],
                     [''metadata'', ''locks''] ]
      in (session_path,
          m\<lparr>fs := fold (\<lambda>subdir f. mkdir_parents f (session_path @ subdir)) subdirs (fs m)\<rparr>))"

text \<open>
  \<^verbatim>\<open>_save_session_metadata\<close> writes the JSON document of the session;
  \<open>json_len\<close> is the number of bytes \<^verbatim>\<open>json.dump\<close> produced.
\<close>

definition save_session_metadata :: "manager \<Rightarrow> TutorialSession \<Rightarrow> nat \<Rightarrow> manager" where
  "save_session_metadata m session json_len =
     (let session_path = get_session_path (session_id session);
          metadata_path = session_path @ [''metadata'', ''session.json''];
          fs1 = mkdir_parents (fs m) (butlast metadata_path)
      in m\<lparr>fs := fmupd metadata_path (File json_len) fs1\<rparr>)"

text \<open>\<^verbatim>\<open>_load_session_from_storage\<close> returns \<^verbatim>\<open>False\<close> on each of its paths.\<close>

definition load_session_from_storage :: "manager \<Rightarrow> string \<Rightarrow> bool" where
  "load_session_from_storage m sid =
     (let metadata_path = get_session_path sid @ [''metadata'', ''session.json'']
      in if \<not> path_exists (fs m) metadata_path then False else False)"

definition create_session ::
  "manager \<Rightarrow> preferences_dict option \<Rightarrow> string \<Rightarrow> datetime \<Rightarrow> string \<Rightarrow> nat
     \<Rightarrow> (error + string) \<times> manager" where
  "create_session m user_preferences' ua now uuid json_len =
     (if fcard (fmdom (active_sessions m)) \<ge> MAX_CONCURRENT_SESSIONS
      then (Inl ConcurrencyLimitError, m)
      else
        (let session = create_new now uuid ua user_preferences' 4;
             (workspace, m1) = create_session_workspace m (session_id session);
             session1 = session\<lparr>workspace_path := Some workspace\<rparr>;
             m2 = m1\<lparr>active_sessions := fmupd (session_id session1) session1 (active_sessions m1),
                      session_data := fmupd (session_id session1) SessionData_default (session_data m1)\<rparr>;
             m3 = save_session_metadata m2 session1 json_len
         in (Inr (session_id session1), m3)))"

definition get_session :: "manager \<Rightarrow> string \<Rightarrow> datetime \<Rightarrow> (error + TutorialSession) \<times> manager" where
  "get_session m sid now =
     (case fmlookup (active_sessions m) sid of
        None \<Rightarrow>
          (if \<not> load_session_from_storage m sid then (Inl SessionNotFoundError, m)
           else (Inl KeyError, m))
      | Some session \<Rightarrow>
          (if is_expired session now
           then (let (r, m1) = end_session m sid in (Inl SessionNotFoundError, m1))
           else (Inr session, m)))"

text \<open>
  \<^verbatim>\<open>update_session_state\<close>: the session object that \<^verbatim>\<open>update_state\<close> mutates is
  the one stored in \<^verbatim>\<open>active_sessions\<close>, so the table is updated with it. The
  handler turns \<^verbatim>\<open>SessionNotFoundError\<close> and \<^verbatim>\<open>ValueError\<close> into the answer
  \<^verbatim>\<open>False\<close>; any other exception passes through.
\<close>

definition update_session_state ::
  "manager \<Rightarrow> string \<Rightarrow> WorkflowState \<Rightarrow> datetime \<Rightarrow> datetime \<Rightarrow> nat
     \<Rightarrow> (error + bool) \<times> manager" where
  "update_session_state m sid new_state now now' json_len =
     (case get_session m sid now of
        (Inl e, m1) \<Rightarrow>
          (if e = SessionNotFoundError \<or> e = ValueError then (Inr False, m1) else (Inl e, m1))
      | (Inr session, m1) \<Rightarrow>
          (case update_state session new_state now' of
             (Inl e, session1) \<Rightarrow>
               (if e = SessionNotFoundError \<or> e = ValueError then (Inr False, m1)
                else (Inl e, m1))
           | (Inr u, session1) \<Rightarrow>
               (Inr True,
                save_session_metadata
                  (m1\<lparr>active_sessions := fmupd sid session1 (active_sessions m1)\<rparr>)
                  session1 json_len)))"

definition get_session_data :: "manager \<Rightarrow> string \<Rightarrow> SessionData \<times> manager" where
  "get_session_data m sid =
     (case fmlookup (session_data m) sid of
        None \<Rightarrow>
          (SessionData_default,
           m\<lparr>session_data := fmupd sid SessionData_default (session_data m)\<rparr>)
      | Some d \<Rightarrow> (d, m))"

section \<open>services/session\_manager: streaming upload\<close>

text \<open>
  An upload stream is given by what its successive calls
  \<^verbatim>\<open>file_stream.read(STREAMING_CHUNK_SIZE)\<close> return: \<open>Chunk n\<close> is a chunk of
  \<open>n\<close> bytes (at most \<open>STREAMING_CHUNK_SIZE\<close> for a real stream) that is then written
  to the file, \<open>Chunk 0\<close> or the end of the list is the empty chunk that ends the loop,
  and \<open>IOFailure\<close> is a read or write that raises \<^verbatim>\<open>OSError\<close>.
\<close>

datatype read_result = Chunk nat | IOFailure

type_synonym byte_stream = "read_result list"

text \<open>The number of bytes a call of \<^verbatim>\<open>read\<close> delivered.\<close>

fun chunk_bytes :: "read_result \<Rightarrow> nat" where
  "chunk_bytes (Chunk n) = n"
| "chunk_bytes IOFailure = 0"

text \<open>
  The \<^verbatim>\<open>while True\<close> loop of \<^verbatim>\<open>save_large_file\<close>: the exception that leaves it,
  if any, and the tree afterwards.
\<close>

fun write_chunks ::
  "filesystem \<Rightarrow> path \<Rightarrow> nat \<Rightarrow> byte_stream \<Rightarrow> error option \<times> filesystem" where
  "write_chunks fsys file_path total_written [] = (None, fsys)"
| "write_chunks fsys file_path total_written (IOFailure # rest) = (Some OSError, fsys)"
| "write_chunks fsys file_path total_written (Chunk n # rest) =
     (if n = 0 then (None, fsys)
      else
        (let total_written1 = total_written + n;
             fsys1 = fmupd file_path (File total_written1) fsys
         in if int total_written1 > MAX_SESSION_STORAGE
            then (Some StorageQuotaExceededError, unlink fsys1 file_path)
            else write_chunks fsys1 file_path total_written1 rest))"

text \<open>
  \<^verbatim>\<open>save_large_file\<close>. Acquiring the \<^verbatim>\<open>FileLock\<close> creates the empty lock file;
  a lock that is not obtained within its timeout is outside this sequential model.
  \<^verbatim>\<open>file_type\<close> is given by its components (\<^verbatim>\<open>audio/original\<close> is
  \<open>[''audio'', ''original'']\<close>).
\<close>

definition save_large_file ::
  "manager \<Rightarrow> string \<Rightarrow> byte_stream \<Rightarrow> path \<Rightarrow> string \<Rightarrow> (error + path) \<times> manager" where
  "save_large_file m sid file_stream file_type filename =
     (let session_path = get_session_path sid;
          file_path = session_path @ [''files''] @ file_type @ [filename];
          file_size = estimate_stream_size file_stream;
          (ok, m1) = check_storage_quota m sid file_size
      in if \<not> ok then (Inl StorageQuotaExceededError, m1)
         else
           (let lock_path = session_path @ [''metadata'', ''locks'', filename @ ''.lock''];
                fs1 = mkdir_parents (fs m1) (butlast lock_path);
                fs2 = (if path_exists fs1 lock_path then fs1 else fmupd lock_path (File 0) fs1);
                fs3 = mkdir_parents fs2 (butlast file_path);
                fs4 = fmupd file_path (File 0) fs3
            in case write_chunks fs4 file_path 0 file_stream of
                 (None, fs5) \<Rightarrow> (Inr file_path, m1\<lparr>fs := fs5\<rparr>)
               | (Some e, fs5) \<Rightarrow>
                   (Inl SessionStorageError,
                    m1\<lparr>fs := (if path_exists fs5 file_path then unlink fs5 file_path
                               else fs5)\<rparr>)))"

section \<open>A crowded storage root\<close>


section \<open>The workflow state machine\<close>

lemma is_valid_state_transition_edges:
  "is_valid_state_transition current new \<longleftrightarrow> (current, new) \<in> legal_edges"
  by (cases current; cases new)
     (simp_all add: is_valid_state_transition_def legal_edges_def)

lemma update_state_illegal:
  assumes "(state s, new) \<notin> legal_edges"
  shows "update_state s new now = (Inl ValueError, s)"
  using assms by (simp add: update_state_def is_valid_state_transition_edges)

lemma update_state_legal:
  assumes "(state s, new) \<in> legal_edges"
  shows "update_state s new now = (Inr (), s\<lparr>state := new, last_updated := now\<rparr>)"
  using assms by (simp add: update_state_def is_valid_state_transition_edges)

lemma update_state_retries:
  assumes "(state s, new) \<notin> legal_edges"
  shows "fold (\<lambda>t s'. snd (update_state s' new t)) ts s = s"
  using assms by (induction ts) (simp_all add: update_state_illegal)

text \<open>
  Claim C1. For every session and every requested state, \<^verbatim>\<open>update_state\<close>
  succeeds exactly when (current state, requested state) is one of the thirteen legal
  edges, and then the session carries the requested state; on every other pair it raises
  \<^verbatim>\<open>ValueError\<close> and leaves the session as it was, and however often the same
  illegal request is repeated (at clock readings \<open>ts\<close>) the next attempt fails again.
\<close>

theorem C1_transition_iff_legal_edge:
  "(fst (update_state s new now) = Inr () \<longleftrightarrow> (state s, new) \<in> legal_edges)
   \<and> ((state s, new) \<in> legal_edges \<longrightarrow> state (snd (update_state s new now)) = new)
   \<and> ((state s, new) \<notin> legal_edges \<longrightarrow>
        update_state s new now = (Inl ValueError, s)
        \<and> fst (update_state (fold (\<lambda>t s'. snd (update_state s' new t)) ts s) new now')
            = Inl ValueError)"
proof (cases "(state s, new) \<in> legal_edges")
  case True
  then show ?thesis by (simp add: update_state_legal)
next
  case False
  then show ?thesis by (simp add: update_state_illegal update_state_retries)
qed

theorem C1_transition_iff_legal_edge_witness:
  "(state (create_new 0 ''a'' '''' None 4), AUDIO_UPLOADED) \<in> legal_edges
   \<and> state (snd (update_state (create_new 0 ''a'' '''' None 4) AUDIO_UPLOADED 1)) = AUDIO_UPLOADED
   \<and> (state (create_new 0 ''a'' '''' None 4), COMPLETED) \<notin> legal_edges
   \<and> update_state (create_new 0 ''a'' '''' None 4) COMPLETED 1
       = (Inl ValueError, create_new 0 ''a'' '''' None 4)
   \<and> fst (update_state
            (fold (\<lambda>t s'. snd (update_state s' COMPLETED t)) [2, 3]
               (create_new 0 ''a'' '''' None 4)) COMPLETED 4) = Inl ValueError"
proof -
  have legal: "(state (create_new 0 ''a'' '''' None 4), AUDIO_UPLOADED) \<in> legal_edges"
    by (simp add: create_new_def legal_edges_def)
  have illegal: "(state (create_new 0 ''a'' '''' None 4), COMPLETED) \<notin> legal_edges"
    by (simp add: create_new_def legal_edges_def)
  show ?thesis
    using legal illegal
      C1_transition_iff_legal_edge
        [of "create_new 0 ''a'' '''' None 4" AUDIO_UPLOADED 1 "[]" 0]
      C1_transition_iff_legal_edge
        [of "create_new 0 ''a'' '''' None 4" COMPLETED 1 "[2, 3]" 4]
    by blast
qed

section \<open>Session expiry\<close>

lemma create_new_expiry:
  "created_at (create_new now uuid ua prefs h) = now"
  "expires_at (create_new now uuid ua prefs h) = now + h * 3600000000"
  by (simp_all add: create_new_def timedelta_hours_def)

lemma create_session_lookup:
  assumes "fcard (fmdom (active_sessions m)) < MAX_CONCURRENT_SESSIONS"
  shows "fst (create_session m p ua now uuid j) = Inr uuid"
    and "fmlookup (active_sessions (snd (create_session m p ua now uuid j))) uuid =
           Some ((create_new now uuid ua p 4)\<lparr>workspace_path := Some (get_session_path uuid)\<rparr>)"
    and "fmlookup (session_data (snd (create_session m p ua now uuid j))) uuid =
           Some SessionData_default"
  using assms
  by (simp_all add: create_session_def create_session_workspace_def save_session_metadata_def
      Let_def create_new_def)

text \<open>
  Claim C7 as stated (\<^verbatim>\<open>expires_at\<close> is strictly later than \<^verbatim>\<open>created_at\<close> after
  creation and after every extension) fails on the code: \<^verbatim>\<open>create_new\<close> with
  \<^verbatim>\<open>session_timeout_hours = 0\<close> yields a session that expires at the instant of
  its creation, and \<^verbatim>\<open>extend_expiration\<close> with \<^verbatim>\<open>additional_hours = -1\<close>, one
  minute after creation, moves the deadline before \<^verbatim>\<open>created_at\<close>.
\<close>

theorem C7_counterexample:
  "\<not> created_at (create_new 0 ''a'' '''' None 0) < expires_at (create_new 0 ''a'' '''' None 0)
   \<and> \<not> created_at (extend_expiration (create_new 0 ''a'' '''' None 4) (- 1) 60000000 60000000)
        < expires_at (extend_expiration (create_new 0 ''a'' '''' None 4) (- 1) 60000000 60000000)"
  by (simp add: create_new_def extend_expiration_def timedelta_hours_def)

text \<open>
  Claim C7, amended. A session created with a positive timeout has
  \<^verbatim>\<open>expires_at\<close> strictly later than \<^verbatim>\<open>created_at\<close>; so has every session
  after \<^verbatim>\<open>extend_expiration\<close> with a positive number of hours at a clock reading
  that is not earlier than \<^verbatim>\<open>created_at\<close>; and so has every session that the
  manager's \<^verbatim>\<open>create_session\<close> registers, which always uses the four-hour default.
\<close>

theorem C7_expiry_after_creation:
  "(0 < h \<longrightarrow>
      created_at (create_new now uuid ua prefs h) < expires_at (create_new now uuid ua prefs h))
   \<and> (0 < additional_hours \<and> created_at s \<le> now1 \<longrightarrow>
        created_at (extend_expiration s additional_hours now1 now2)
          < expires_at (extend_expiration s additional_hours now1 now2))
   \<and> (\<forall>session. fst (create_session m p ua now uuid j) = Inr sid
          \<and> fmlookup (active_sessions (snd (create_session m p ua now uuid j))) sid = Some session
        \<longrightarrow> created_at session < expires_at session)"
proof (intro conjI allI impI)
  assume "0 < h"
  then show "created_at (create_new now uuid ua prefs h) < expires_at (create_new now uuid ua prefs h)"
    by (simp add: create_new_expiry)
next
  assume "0 < additional_hours \<and> created_at s \<le> now1"
  then show "created_at (extend_expiration s additional_hours now1 now2)
          < expires_at (extend_expiration s additional_hours now1 now2)"
    by (simp add: extend_expiration_def timedelta_hours_def)
next
  fix session
  assume a: "fst (create_session m p ua now uuid j) = Inr sid
          \<and> fmlookup (active_sessions (snd (create_session m p ua now uuid j))) sid = Some session"
  have lt: "fcard (fmdom (active_sessions m)) < MAX_CONCURRENT_SESSIONS"
  proof (rule ccontr)
    assume "\<not> ?thesis"
    then have "fst (create_session m p ua now uuid j) = Inl ConcurrencyLimitError"
      by (simp add: create_session_def)
    with a show False by simp
  qed
  from create_session_lookup(1)[OF lt, of p ua now uuid j] a have "sid = uuid" by simp
  with create_session_lookup(2)[OF lt, of p ua now uuid j] a
  have "session = (create_new now uuid ua p 4)\<lparr>workspace_path := Some (get_session_path uuid)\<rparr>"
    by simp
  then show "created_at session < expires_at session"
    by (simp add: create_new_expiry)
qed

theorem C7_expiry_after_creation_witness:
  "(0::int) < 4
   \<and> created_at (create_new 0 ''a'' '''' None 4) < expires_at (create_new 0 ''a'' '''' None 4)
   \<and> created_at (create_new 0 ''a'' '''' None 4) \<le> 7200000000
   \<and> created_at (extend_expiration (create_new 0 ''a'' '''' None 4) 4 7200000000 7200000001)
       < expires_at (extend_expiration (create_new 0 ''a'' '''' None 4) 4 7200000000 7200000001)
   \<and> fst (create_session manager_init None '''' 0 ''a'' 0) = Inr ''a''
   \<and> fmlookup (active_sessions (snd (create_session manager_init None '''' 0 ''a'' 0))) ''a''
       = Some ((create_new 0 ''a'' '''' None 4)\<lparr>workspace_path := Some (get_session_path ''a'')\<rparr>)
   \<and> created_at ((create_new 0 ''a'' '''' None 4)\<lparr>workspace_path := Some (get_session_path ''a'')\<rparr>)
       < expires_at ((create_new 0 ''a'' '''' None 4)\<lparr>workspace_path := Some (get_session_path ''a'')\<rparr>)"
proof -
  have room: "fcard (fmdom (active_sessions manager_init)) < MAX_CONCURRENT_SESSIONS"
    by (simp add: manager_init_def MAX_CONCURRENT_SESSIONS_def fcard_fempty)
  have early: "created_at (create_new 0 ''a'' '''' None 4) \<le> 7200000000"
    by (simp add: create_new_expiry)
  note made = create_session_lookup(1,2) [OF room, of None "''''" 0 "''a''" 0]
  show ?thesis
    using early made
      C7_expiry_after_creation
        [where h = 4 and now = 0 and uuid = "''a''" and ua = "''''" and prefs = None
           and additional_hours = 4 and s = "create_new 0 ''a'' '''' None 4"
           and ?now1.0 = 7200000000 and ?now2.0 = 7200000001 and m = manager_init
           and p = None and j = 0 and sid = "''a''"]
    by simp
qed

section \<open>Processing status\<close>

lemma complete_processing_recomputes:
  assumes "processing_status d = Some ps"
  shows "processing_status (complete_processing d now)
           = Some (update_progress ps 100 ''Processing completed'' now)"
    and "\<exists>ps'. processing_status (complete_processing d now) = Some ps'
           \<and> processing_time_seconds ps' = Some (total_seconds_int (now - start_time ps))"
  using assms by (simp_all add: complete_processing_def update_progress_def Let_def)




section \<open>Busy markers\<close>

lemma fmupd_same_value:
  assumes "fmlookup pf k = Some v"
  shows "fmupd k v pf = pf"
  using assms by (intro fmap_ext) auto

lemma busy_after_mark:
  "fst (processing_files_get (processing_files (snd (mark_file_processing m sid fp sv))) sid')
     = (if sid' = sid
        then finsert (busy_tag fp sv) (fst (processing_files_get (processing_files m) sid))
        else fst (processing_files_get (processing_files m) sid'))"
  by (simp add: mark_file_processing_def processing_files_get_def split: option.splits)

lemma busy_after_unmark:
  "fst (processing_files_get (processing_files (snd (unmark_file_processing m sid fp sv))) sid')
     = (if sid' = sid
        then fst (processing_files_get (processing_files m) sid) |-| {|busy_tag fp sv|}
        else fst (processing_files_get (processing_files m) sid'))"
  by (simp add: unmark_file_processing_def processing_files_get_def split: option.splits)

lemma mark_twice:
  "snd (mark_file_processing (snd (mark_file_processing m sid fp sv)) sid fp sv)
     = snd (mark_file_processing m sid fp sv)"
  by (simp add: mark_file_processing_def processing_files_get_def split: option.splits)

lemma unmark_twice:
  "snd (unmark_file_processing (snd (unmark_file_processing m sid fp sv)) sid fp sv)
     = snd (unmark_file_processing m sid fp sv)"
  by (simp add: unmark_file_processing_def processing_files_get_def split: option.splits)

lemma mark_marked_unchanged:
  assumes "busy_tag fp sv |\<in>| fst (processing_files_get (processing_files m) sid)"
  shows "snd (mark_file_processing m sid fp sv) = m"
proof (cases "fmlookup (processing_files m) sid")
  case None
  with assms show ?thesis by (simp add: processing_files_get_def)
next
  case (Some s)
  with assms have "finsert (busy_tag fp sv) s = s"
    by (auto simp: processing_files_get_def)
  with Some show ?thesis
    by (simp add: mark_file_processing_def processing_files_get_def fmupd_same_value)
qed

lemma can_cleanup_iff:
  "fst (can_cleanup_session m sid) \<longleftrightarrow> fst (processing_files_get (processing_files m) sid) = {||}"
  by (simp add: can_cleanup_session_def processing_files_get_def split: option.splits)

text \<open>
  Claim C9. The busy-set of a session is what the \<^verbatim>\<open>defaultdict\<close> lookup
  \<^verbatim>\<open>processing_files[session_id]\<close> returns. Marking a pair whose tag is already in
  the busy-set changes nothing at all, unmarking a pair whose tag is not in it leaves
  the busy-set as it was, marking twice is marking once, unmarking twice is unmarking
  once, and \<^verbatim>\<open>can_cleanup_session\<close> answers true exactly when the busy-set is empty.
\<close>

theorem C9_busy_markers:
  "(busy_tag fp sv |\<in>| fst (processing_files_get (processing_files m) sid) \<longrightarrow>
      mark_file_processing m sid fp sv = (True, m))
   \<and> (busy_tag fp sv |\<notin>| fst (processing_files_get (processing_files m) sid) \<longrightarrow>
        fst (unmark_file_processing m sid fp sv) = True
        \<and> fst (processing_files_get
                 (processing_files (snd (unmark_file_processing m sid fp sv))) sid)
            = fst (processing_files_get (processing_files m) sid))
   \<and> snd (mark_file_processing (snd (mark_file_processing m sid fp sv)) sid fp sv)
       = snd (mark_file_processing m sid fp sv)
   \<and> snd (unmark_file_processing (snd (unmark_file_processing m sid fp sv)) sid fp sv)
       = snd (unmark_file_processing m sid fp sv)
   \<and> (fst (can_cleanup_session m sid)
        \<longleftrightarrow> fst (processing_files_get (processing_files m) sid) = {||})"
proof (intro conjI impI)
  assume "busy_tag fp sv |\<in>| fst (processing_files_get (processing_files m) sid)"
  from mark_marked_unchanged[OF this]
  show "mark_file_processing m sid fp sv = (True, m)"
    by (simp add: mark_file_processing_def prod_eq_iff split: prod.splits)
next
  assume a: "busy_tag fp sv |\<notin>| fst (processing_files_get (processing_files m) sid)"
  show "fst (unmark_file_processing m sid fp sv) = True"
    by (simp add: unmark_file_processing_def split: prod.splits)
  from a show "fst (processing_files_get
                 (processing_files (snd (unmark_file_processing m sid fp sv))) sid)
            = fst (processing_files_get (processing_files m) sid)"
    by (simp add: busy_after_unmark)
qed (rule mark_twice unmark_twice can_cleanup_iff)+

theorem C9_busy_markers_witness:
  "busy_tag ''a.wav'' ''stt''
     |\<in>| fst (processing_files_get
               (processing_files (snd (mark_file_processing manager_init ''s'' ''a.wav'' ''stt''))) ''s'')
   \<and> mark_file_processing (snd (mark_file_processing manager_init ''s'' ''a.wav'' ''stt''))
         ''s'' ''a.wav'' ''stt''
       = (True, snd (mark_file_processing manager_init ''s'' ''a.wav'' ''stt''))
   \<and> busy_tag ''a.wav'' ''tts''
       |\<notin>| fst (processing_files_get
                 (processing_files (snd (mark_file_processing manager_init ''s'' ''a.wav'' ''stt''))) ''s'')
   \<and> fst (processing_files_get
            (processing_files
               (snd (unmark_file_processing
                       (snd (mark_file_processing manager_init ''s'' ''a.wav'' ''stt''))
                       ''s'' ''a.wav'' ''tts''))) ''s'')
       = {|''a.wav:stt''|}
   \<and> \<not> fst (can_cleanup_session (snd (mark_file_processing manager_init ''s'' ''a.wav'' ''stt'')) ''s'')
   \<and> fst (can_cleanup_session manager_init ''s'')"
proof -
  let ?m = "snd (mark_file_processing manager_init ''s'' ''a.wav'' ''stt'')"
  have busy: "fst (processing_files_get (processing_files ?m) ''s'') = {|''a.wav:stt''|}"
    unfolding busy_after_mark
    by (simp add: busy_tag_def processing_files_get_def manager_init_def)
  have idle: "fst (processing_files_get (processing_files manager_init) ''s'') = {||}"
    by (simp add: processing_files_get_def manager_init_def)
  have marked: "busy_tag ''a.wav'' ''stt'' |\<in>| fst (processing_files_get (processing_files ?m) ''s'')"
    by (simp add: busy busy_tag_def)
  have absent: "busy_tag ''a.wav'' ''tts'' |\<notin>| fst (processing_files_get (processing_files ?m) ''s'')"
    by (simp add: busy busy_tag_def)
  show ?thesis
    using marked absent busy idle
      C9_busy_markers [of "''a.wav''" "''stt''" ?m "''s''"]
      C9_busy_markers [of "''a.wav''" "''tts''" ?m "''s''"]
      C9_busy_markers [of "''a.wav''" "''stt''" manager_init "''s''"]
    by simp
qed

section \<open>The workspace store\<close>

lemma path_exists_fmupd:
  "path_exists (fmupd q v fsys) p \<longleftrightarrow> p = q \<or> path_exists fsys p"
  by (auto simp: path_exists_def)

lemma mkdir_fold_exists:
  "path_exists (fold (\<lambda>q f. if q |\<in>| fmdom f then f else fmupd q Dir f) qs fsys) p
     \<longleftrightarrow> p \<in> set qs \<or> path_exists fsys p"
proof (induction qs arbitrary: fsys)
  case Nil
  show ?case by simp
next
  case (Cons q qs)
  show ?case
  proof (cases "q |\<in>| fmdom fsys")
    case True
    then have "path_exists fsys q" by (simp add: path_exists_def)
    with True show ?thesis by (auto simp: Cons.IH)
  next
    case False
    then show ?thesis by (auto simp: Cons.IH path_exists_fmupd)
  qed
qed

lemma path_exists_mkdir_parents:
  "path_exists (mkdir_parents fsys p) q
     \<longleftrightarrow> (q \<noteq> [] \<and> prefix q p) \<or> path_exists fsys q"
proof -
  have "set (tl (prefixes p)) = {q. q \<noteq> [] \<and> prefix q p}"
    by (cases p) (auto simp: Cons_prefix_Cons prefix_Cons)
  then show ?thesis
    by (simp add: mkdir_parents_def mkdir_fold_exists)
qed

lemma path_exists_rmtree:
  "path_exists (rmtree fsys p) q \<longleftrightarrow> \<not> prefix p q \<and> path_exists fsys q"
  by (auto simp: path_exists_def rmtree_def)

section \<open>Creating a session\<close>

lemma fold_mkdir_exists:
  "path_exists (fold (\<lambda>d f. mkdir_parents f (sp @ d)) ds fsys) q
     \<longleftrightarrow> (q \<noteq> [] \<and> (\<exists>d \<in> set ds. prefix q (sp @ d))) \<or> path_exists fsys q"
  by (induction ds arbitrary: fsys) (auto simp: path_exists_mkdir_parents)

lemma create_session_workspace_exists:
  assumes "q \<noteq> []"
    and "d \<in> {[''metadata''], [''files'', ''audio'', ''original''],
              [''files'', ''audio'', ''processed''], [''files'', ''pdfs''],
              [''files'', ''generated'', ''scripts''],
              [''files'', ''generated'', ''audio''], [''temp''], [''logs''],
              [''metadata'', ''locks'']}"
    and "prefix q (get_session_path sid @ d)"
  shows "path_exists (fs (snd (create_session_workspace m sid))) q"
proof -
  have "fs (snd (create_session_workspace m sid)) =
          fold (\<lambda>d f. mkdir_parents f (get_session_path sid @ d))
            [ [''metadata''], [''files'', ''audio'', ''original''],
             [''files'', ''audio'', ''processed''], [''files'', ''pdfs''],
             [''files'', ''generated'', ''scripts''],
             [''files'', ''generated'', ''audio''], [''temp''], [''logs''],
             [''metadata'', ''locks''] ] (fs m)"
    by (simp add: create_session_workspace_def Let_def)
  moreover have "d \<in> set [ [''metadata''], [''files'', ''audio'', ''original''],
             [''files'', ''audio'', ''processed''], [''files'', ''pdfs''],
             [''files'', ''generated'', ''scripts''],
             [''files'', ''generated'', ''audio''], [''temp''], [''logs''],
             [''metadata'', ''locks''] ]"
    using assms(2) by simp
  ultimately show ?thesis
    using assms(1,3) by (simp only: fold_mkdir_exists) blast
qed

lemma create_session_workspace_keeps:
  "path_exists (fs m) q \<Longrightarrow> path_exists (fs (snd (create_session_workspace m sid))) q"
  by (simp add: create_session_workspace_def Let_def path_exists_mkdir_parents)

lemma create_session_full:
  "create_session m p ua now uuid j = (Inl ConcurrencyLimitError, m)"
  if "MAX_CONCURRENT_SESSIONS \<le> fcard (fmdom (active_sessions m))"
  using that by (simp add: create_session_def)

lemma create_session_fs:
  assumes "fcard (fmdom (active_sessions m)) < MAX_CONCURRENT_SESSIONS"
  shows "fs (snd (create_session m p ua now uuid j)) =
           fmupd (get_session_path uuid @ [''metadata'', ''session.json'']) (File j)
             (mkdir_parents (fs (snd (create_session_workspace m uuid)))
                (get_session_path uuid @ [''metadata'']))"
  using assms
  by (simp add: create_session_def save_session_metadata_def Let_def create_new_def
      butlast_append split: prod.splits)

lemma create_session_others:
  assumes "fcard (fmdom (active_sessions m)) < MAX_CONCURRENT_SESSIONS"
  shows "active_sessions (snd (create_session m p ua now uuid j))
           = fmupd uuid ((create_new now uuid ua p 4)\<lparr>workspace_path := Some (get_session_path uuid)\<rparr>)
               (active_sessions m)"
    and "session_data (snd (create_session m p ua now uuid j))
           = fmupd uuid SessionData_default (session_data m)"
    and "processing_files (snd (create_session m p ua now uuid j)) = processing_files m"
    and "deferred (snd (create_session m p ua now uuid j)) = deferred m"
  using assms
  by (simp_all add: create_session_def save_session_metadata_def Let_def create_new_def
      create_session_workspace_def split: prod.splits)

lemma create_session_dom:
  assumes "fcard (fmdom (active_sessions m)) < MAX_CONCURRENT_SESSIONS"
  shows "fmdom (active_sessions (snd (create_session m p ua now uuid j)))
           = finsert uuid (fmdom (active_sessions m))"
  by (simp add: create_session_others(1)[OF assms])

lemma mark_keeps_tables:
  "active_sessions (snd (mark_file_processing m sid fp sv)) = active_sessions m"
  "session_data (snd (mark_file_processing m sid fp sv)) = session_data m"
  "fs (snd (mark_file_processing m sid fp sv)) = fs m"
  "deferred (snd (mark_file_processing m sid fp sv)) = deferred m"
  by (simp_all add: mark_file_processing_def split: prod.splits)

lemma manager_init_room:
  "fcard (fmdom (active_sessions manager_init)) < MAX_CONCURRENT_SESSIONS"
  by (simp add: manager_init_def MAX_CONCURRENT_SESSIONS_def fcard_fempty)

text \<open>
  Claim C4. When the registry holds five or more sessions, \<^verbatim>\<open>create_session\<close>
  raises \<^verbatim>\<open>ConcurrencyLimitError\<close> and leaves the whole manager, registry and
  directory tree alike, as it was. When it holds fewer than five, the call returns the
  freshly drawn identifier and registers under it a session in state \<open>INITIAL\<close>,
  created at \<open>now\<close> and expiring 14400 seconds later, whose workspace directory and
  nine subdirectories exist and hold the metadata file, together with a default
  \<^verbatim>\<open>SessionData\<close>; the other sessions of the registry are untouched.
\<close>

theorem C4_create_session:
  "(5 \<le> fcard (fmdom (active_sessions m)) \<longrightarrow>
      create_session m p ua now uuid j = (Inl ConcurrencyLimitError, m))
   \<and> (fcard (fmdom (active_sessions m)) < 5 \<longrightarrow>
        fst (create_session m p ua now uuid j) = Inr uuid
        \<and> fmlookup (active_sessions (snd (create_session m p ua now uuid j))) uuid
            = Some \<lparr>session_id = uuid, state = INITIAL, created_at = now, last_updated = now,
                    expires_at = now + 14400 * 1000000, user_agent = ua,
                    user_preferences = parse_preferences p,
                    workspace_path = Some [''sessions'', uuid]\<rparr>
        \<and> fmlookup (session_data (snd (create_session m p ua now uuid j))) uuid
            = Some SessionData_default
        \<and> (\<forall>d \<in> {[], [''metadata''], [''metadata'', ''locks''], [''files'', ''audio'', ''original''],
                   [''files'', ''audio'', ''processed''], [''files'', ''pdfs''],
                   [''files'', ''generated'', ''scripts''], [''files'', ''generated'', ''audio''],
                   [''temp''], [''logs'']}.
              path_exists (fs (snd (create_session m p ua now uuid j))) ([''sessions'', uuid] @ d))
        \<and> fmlookup (fs (snd (create_session m p ua now uuid j)))
              [''sessions'', uuid, ''metadata'', ''session.json''] = Some (File j)
        \<and> (\<forall>sid. sid \<noteq> uuid \<longrightarrow>
              fmlookup (active_sessions (snd (create_session m p ua now uuid j))) sid
                = fmlookup (active_sessions m) sid))"
proof (intro conjI impI)
  assume "5 \<le> fcard (fmdom (active_sessions m))"
  then show "create_session m p ua now uuid j = (Inl ConcurrencyLimitError, m)"
    by (simp add: create_session_full MAX_CONCURRENT_SESSIONS_def)
next
  assume "fcard (fmdom (active_sessions m)) < 5"
  then have room: "fcard (fmdom (active_sessions m)) < MAX_CONCURRENT_SESSIONS"
    by (simp add: MAX_CONCURRENT_SESSIONS_def)
  let ?m' = "snd (create_session m p ua now uuid j)"
  show "fst (create_session m p ua now uuid j) = Inr uuid"
    by (rule create_session_lookup(1)[OF room])
  show "fmlookup (active_sessions ?m') uuid
            = Some \<lparr>session_id = uuid, state = INITIAL, created_at = now, last_updated = now,
                    expires_at = now + 14400 * 1000000, user_agent = ua,
                    user_preferences = parse_preferences p,
                    workspace_path = Some [''sessions'', uuid]\<rparr>"
    by (simp add: create_session_lookup(2)[OF room] create_new_def timedelta_hours_def
        get_session_path_def)
  show "fmlookup (session_data ?m') uuid = Some SessionData_default"
    by (rule create_session_lookup(3)[OF room])
  show "\<forall>d \<in> {[], [''metadata''], [''metadata'', ''locks''], [''files'', ''audio'', ''original''],
                   [''files'', ''audio'', ''processed''], [''files'', ''pdfs''],
                   [''files'', ''generated'', ''scripts''], [''files'', ''generated'', ''audio''],
                   [''temp''], [''logs'']}.
              path_exists (fs ?m') ([''sessions'', uuid] @ d)"
  proof
    fix d
    assume d: "d \<in> {[], [''metadata''], [''metadata'', ''locks''], [''files'', ''audio'', ''original''],
                   [''files'', ''audio'', ''processed''], [''files'', ''pdfs''],
                   [''files'', ''generated'', ''scripts''], [''files'', ''generated'', ''audio''],
                   [''temp''], [''logs'']}"
    have "path_exists (fs (snd (create_session_workspace m uuid))) ([''sessions'', uuid] @ d)"
    proof (cases "d = []")
      case True
      have "prefix ([''sessions'', uuid] @ d) (get_session_path uuid @ [''temp''])"
        using True by (simp add: get_session_path_def)
      then show ?thesis
        by (intro create_session_workspace_exists[where d = "[''temp'']"]) simp_all
    next
      case False
      have "prefix ([''sessions'', uuid] @ d) (get_session_path uuid @ d)"
        by (simp add: get_session_path_def)
      moreover have "d \<in> {[''metadata''], [''files'', ''audio'', ''original''],
              [''files'', ''audio'', ''processed''], [''files'', ''pdfs''],
              [''files'', ''generated'', ''scripts''],
              [''files'', ''generated'', ''audio''], [''temp''], [''logs''],
              [''metadata'', ''locks'']}"
        using d False by auto
      ultimately show ?thesis
        by (intro create_session_workspace_exists[where d = d]) simp_all
    qed
    then show "path_exists (fs ?m') ([''sessions'', uuid] @ d)"
      by (simp add: create_session_fs[OF room] path_exists_fmupd path_exists_mkdir_parents)
  qed
  show "fmlookup (fs ?m') [''sessions'', uuid, ''metadata'', ''session.json''] = Some (File j)"
    by (simp add: create_session_fs[OF room] get_session_path_def)
  show "\<forall>sid. sid \<noteq> uuid \<longrightarrow>
              fmlookup (active_sessions ?m') sid = fmlookup (active_sessions m) sid"
    by (simp add: create_session_others(1)[OF room])
qed

theorem C4_create_session_witness:
  "fcard (fmdom (active_sessions manager_init)) < 5
   \<and> fst (create_session manager_init None ''ua'' 0 ''s1'' 0) = Inr ''s1''
   \<and> fmlookup (session_data (snd (create_session manager_init None ''ua'' 0 ''s1'' 0))) ''s1''
       = Some SessionData_default
   \<and> path_exists (fs (snd (create_session manager_init None ''ua'' 0 ''s1'' 0)))
        [''sessions'', ''s1'', ''files'', ''audio'', ''original'']
   \<and> 5 \<le> fcard (fmdom (active_sessions
               (fold (\<lambda>u m. snd (create_session m None ''ua'' 0 u 0))
                  [''s1'', ''s2'', ''s3'', ''s4'', ''s5''] manager_init)))
   \<and> create_session
        (fold (\<lambda>u m. snd (create_session m None ''ua'' 0 u 0))
           [''s1'', ''s2'', ''s3'', ''s4'', ''s5''] manager_init) None ''ua'' 0 ''s6'' 0
       = (Inl ConcurrencyLimitError,
          fold (\<lambda>u m. snd (create_session m None ''ua'' 0 u 0))
            [''s1'', ''s2'', ''s3'', ''s4'', ''s5''] manager_init)"
proof -
  let ?m1 = "snd (create_session manager_init None ''ua'' 0 ''s1'' 0)"
  let ?m2 = "snd (create_session ?m1 None ''ua'' 0 ''s2'' 0)"
  let ?m3 = "snd (create_session ?m2 None ''ua'' 0 ''s3'' 0)"
  let ?m4 = "snd (create_session ?m3 None ''ua'' 0 ''s4'' 0)"
  let ?m5 = "snd (create_session ?m4 None ''ua'' 0 ''s5'' 0)"
  have d0: "fmdom (active_sessions manager_init) = {||}"
    by (simp add: manager_init_def)
  have r0: "fcard (fmdom (active_sessions manager_init)) < 5"
    by (simp add: d0 fcard_fempty)
  have d1: "fmdom (active_sessions ?m1) = {|''s1''|}"
    using create_session_dom[OF manager_init_room] d0 by simp
  have r1: "fcard (fmdom (active_sessions ?m1)) < MAX_CONCURRENT_SESSIONS"
    by (simp add: d1 MAX_CONCURRENT_SESSIONS_def fcard_finsert_if fcard_fempty)
  have d2: "fmdom (active_sessions ?m2) = {|''s2'', ''s1''|}"
    using create_session_dom[OF r1] d1 by simp
  have r2: "fcard (fmdom (active_sessions ?m2)) < MAX_CONCURRENT_SESSIONS"
    by (simp add: d2 MAX_CONCURRENT_SESSIONS_def fcard_finsert_if fcard_fempty)
  have d3: "fmdom (active_sessions ?m3) = {|''s3'', ''s2'', ''s1''|}"
    using create_session_dom[OF r2] d2 by simp
  have r3: "fcard (fmdom (active_sessions ?m3)) < MAX_CONCURRENT_SESSIONS"
    by (simp add: d3 MAX_CONCURRENT_SESSIONS_def fcard_finsert_if fcard_fempty)
  have d4: "fmdom (active_sessions ?m4) = {|''s4'', ''s3'', ''s2'', ''s1''|}"
    using create_session_dom[OF r3] d3 by simp
  have r4: "fcard (fmdom (active_sessions ?m4)) < MAX_CONCURRENT_SESSIONS"
    by (simp add: d4 MAX_CONCURRENT_SESSIONS_def fcard_finsert_if fcard_fempty)
  have d5: "fmdom (active_sessions ?m5) = {|''s5'', ''s4'', ''s3'', ''s2'', ''s1''|}"
    using create_session_dom[OF r4] d4 by simp
  have full: "5 \<le> fcard (fmdom (active_sessions ?m5))"
    by (simp add: d5 fcard_finsert_if fcard_fempty)
  have unfolded: "fold (\<lambda>u m. snd (create_session m None ''ua'' 0 u 0))
                    [''s1'', ''s2'', ''s3'', ''s4'', ''s5''] manager_init = ?m5"
    by simp
  show ?thesis
    unfolding unfolded
    using r0 full
      C4_create_session [of manager_init None "''ua''" 0 "''s1''" 0]
      C4_create_session [of ?m5 None "''ua''" 0 "''s6''" 0]
    by simp
qed

section \<open>Ending a session\<close>

lemma can_cleanup_keeps_tables:
  "active_sessions (snd (can_cleanup_session m sid)) = active_sessions m"
  "session_data (snd (can_cleanup_session m sid)) = session_data m"
  "fs (snd (can_cleanup_session m sid)) = fs m"
  "deferred (snd (can_cleanup_session m sid)) = deferred m"
  by (simp_all add: can_cleanup_session_def split: prod.splits)

lemma can_cleanup_busy_unchanged:
  assumes "\<not> fst (can_cleanup_session m sid)"
  shows "can_cleanup_session m sid = (False, m)"
  using assms
  by (auto simp: can_cleanup_session_def processing_files_get_def split: option.splits)

lemma end_session_busy:
  assumes "\<not> fst (can_cleanup_session m sid)"
  shows "end_session m sid = (True, m\<lparr>deferred := deferred m @ [(sid, 5)]\<rparr>)"
  using can_cleanup_busy_unchanged[OF assms]
  by (simp add: end_session_def cleanup_with_grace_period_def)

lemma end_session_idle:
  assumes "fst (can_cleanup_session m sid)"
  shows "end_session m sid =
           (True,
            m\<lparr>active_sessions := fmdrop sid (active_sessions m),
              session_data := fmdrop sid (session_data m),
              processing_files := fmupd sid {||} (fmdrop sid (processing_files m)),
              fs := (if path_exists (fs m) (get_session_path sid)
                     then rmtree (fs m) (get_session_path sid) else fs m)\<rparr>)"
  using assms
  by (auto simp: end_session_def can_cleanup_session_def processing_files_get_def
      cleanup_session_files_def Let_def fmdrop_fmupd_same split: option.splits)

lemma delayed_cleanup_idle:
  assumes "fst (can_cleanup_session m sid)"
  shows "\<not> path_exists (fs (delayed_cleanup m sid g)) (get_session_path sid)"
    and "active_sessions (delayed_cleanup m sid g) = active_sessions m"
  using assms
  by (auto simp: delayed_cleanup_def can_cleanup_session_def cleanup_session_files_def
      processing_files_get_def Let_def path_exists_rmtree split: option.splits prod.splits)

lemma delayed_cleanup_busy:
  assumes "\<not> fst (can_cleanup_session m sid)"
  shows "delayed_cleanup m sid g = m\<lparr>deferred := remove1 (sid, g) (deferred m)\<rparr>"
  using assms
  by (auto simp: delayed_cleanup_def can_cleanup_session_def processing_files_get_def Let_def
      split: option.splits prod.splits)

lemma first_session_tables:
  "processing_files (snd (create_session manager_init p ua now uuid j)) = fmempty"
  "deferred (snd (create_session manager_init p ua now uuid j)) = []"
  unfolding create_session_others(3,4)[OF manager_init_room]
  by (simp_all add: manager_init_def)

lemma first_session_marked_deferred:
  "deferred (snd (mark_file_processing (snd (create_session manager_init p ua now uuid j)) sid fp sv)) = []"
  by (simp add: mark_keeps_tables first_session_tables)

text \<open>
  Claim C2, on a session that was just created. Without a busy marker, its identifier
  is not a key of \<^verbatim>\<open>processing_files\<close> before the call; \<^verbatim>\<open>end_session\<close> returns
  \<^verbatim>\<open>True\<close>, removes the session from \<^verbatim>\<open>active_sessions\<close> and
  \<^verbatim>\<open>session_data\<close> and deletes its workspace, but the entry it deletes from
  \<^verbatim>\<open>processing_files\<close> is stored again, empty, by the \<^verbatim>\<open>defaultdict\<close> lookup
  that \<^verbatim>\<open>cleanup_session_files\<close> makes through \<^verbatim>\<open>can_cleanup_session\<close>: the
  identifier is a key of the busy-marker table afterwards. With a busy marker,
  \<^verbatim>\<open>end_session\<close> returns \<^verbatim>\<open>True\<close> and changes nothing but to schedule the
  deferred check with a grace period of five minutes. (The behaviour on every manager
  is \<open>end_session_busy\<close> and \<open>end_session_idle\<close> above.)
\<close>

theorem C2_end_session_leaves_busy_entry:
  "fmlookup (processing_files (snd (create_session manager_init None '''' 0 ''s1'' 0))) ''s1''
     = None
   \<and> fst (can_cleanup_session (snd (create_session manager_init None '''' 0 ''s1'' 0)) ''s1'')
   \<and> fst (end_session (snd (create_session manager_init None '''' 0 ''s1'' 0)) ''s1'') = True
   \<and> fmlookup
        (active_sessions
           (snd (end_session (snd (create_session manager_init None '''' 0 ''s1'' 0)) ''s1'')))
        ''s1'' = None
   \<and> fmlookup
        (session_data
           (snd (end_session (snd (create_session manager_init None '''' 0 ''s1'' 0)) ''s1'')))
        ''s1'' = None
   \<and> \<not> path_exists
          (fs (snd (end_session (snd (create_session manager_init None '''' 0 ''s1'' 0)) ''s1'')))
          [''sessions'', ''s1'']
   \<and> fmlookup
        (processing_files
           (snd (end_session (snd (create_session manager_init None '''' 0 ''s1'' 0)) ''s1'')))
        ''s1'' = Some {||}
   \<and> \<not> fst (can_cleanup_session
              (snd (mark_file_processing (snd (create_session manager_init None '''' 0 ''s1'' 0))
                      ''s1'' ''audio/original/a.wav'' ''transcriber'')) ''s1'')
   \<and> end_session
        (snd (mark_file_processing (snd (create_session manager_init None '''' 0 ''s1'' 0))
                ''s1'' ''audio/original/a.wav'' ''transcriber'')) ''s1''
       = (True,
          (snd (mark_file_processing (snd (create_session manager_init None '''' 0 ''s1'' 0))
                  ''s1'' ''audio/original/a.wav'' ''transcriber''))
            \<lparr>deferred := [(''s1'', 5)]\<rparr>)"
proof -
  let ?m1 = "snd (create_session manager_init None '''' 0 ''s1'' 0)"
  let ?m2 = "snd (mark_file_processing ?m1 ''s1'' ''audio/original/a.wav'' ''transcriber'')"
  have unmarked: "fmlookup (processing_files ?m1) ''s1'' = None"
    by (simp add: first_session_tables)
  have idle: "fst (can_cleanup_session ?m1 ''s1'')"
    by (simp add: can_cleanup_iff processing_files_get_def unmarked)
  have busy: "\<not> fst (can_cleanup_session ?m2 ''s1'')"
    by (simp add: can_cleanup_iff busy_after_mark)
  have deferred: "end_session ?m2 ''s1'' = (True, ?m2\<lparr>deferred := [(''s1'', 5)]\<rparr>)"
    by (simp add: end_session_busy[OF busy] first_session_marked_deferred)
  show ?thesis
    using unmarked idle busy deferred
    by (simp add: end_session_idle[OF idle] path_exists_rmtree get_session_path_def)
qed

section \<open>Session data\<close>

text \<open>
  Claim C10. \<^verbatim>\<open>get_session_data\<close> has no failing branch and reads neither the
  registry nor the clock. For an identifier without a record it returns the default
  \<^verbatim>\<open>SessionData\<close> and stores it; for one with a record it returns that record and
  changes nothing; in both cases the record returned is the one stored afterwards
  and the registry is untouched. In particular it answers with a fresh default for a
  session that has just been ended, and for an identifier unknown to the registry, for
  which \<^verbatim>\<open>get_session\<close> raises \<^verbatim>\<open>SessionNotFoundError\<close>.
\<close>

theorem C10_get_session_data:
  "(fmlookup (session_data m) sid = None \<longrightarrow>
      get_session_data m sid
        = (SessionData_default,
           m\<lparr>session_data := fmupd sid SessionData_default (session_data m)\<rparr>))
   \<and> (\<forall>d. fmlookup (session_data m) sid = Some d \<longrightarrow> get_session_data m sid = (d, m))
   \<and> fmlookup (session_data (snd (get_session_data m sid))) sid
       = Some (fst (get_session_data m sid))
   \<and> active_sessions (snd (get_session_data m sid)) = active_sessions m
   \<and> (fst (can_cleanup_session m sid) \<longrightarrow>
        fst (get_session_data (snd (end_session m sid)) sid) = SessionData_default)
   \<and> (fmlookup (active_sessions m) sid = None \<longrightarrow>
        fst (get_session m sid now) = Inl SessionNotFoundError)"
proof (intro conjI impI allI)
  assume "fst (can_cleanup_session m sid)"
  from end_session_idle[OF this]
  show "fst (get_session_data (snd (end_session m sid)) sid) = SessionData_default"
    by (simp add: get_session_data_def)
qed (auto simp: get_session_data_def get_session_def load_session_from_storage_def
       split: option.splits)

theorem C10_get_session_data_witness:
  "fmlookup (session_data manager_init) ''never'' = None
   \<and> get_session_data manager_init ''never''
       = (SessionData_default,
          manager_init\<lparr>session_data := fmupd ''never'' SessionData_default (session_data manager_init)\<rparr>)
   \<and> fmlookup (session_data (snd (get_session_data manager_init ''never''))) ''never''
       = Some SessionData_default
   \<and> get_session_data (snd (get_session_data manager_init ''never'')) ''never''
       = (SessionData_default, snd (get_session_data manager_init ''never''))
   \<and> fst (can_cleanup_session (snd (create_session manager_init None '''' 0 ''s1'' 0)) ''s1'')
   \<and> fst (get_session_data
            (snd (end_session (snd (create_session manager_init None '''' 0 ''s1'' 0)) ''s1''))
            ''s1'') = SessionData_default
   \<and> fmlookup (active_sessions manager_init) ''never'' = None
   \<and> fst (get_session manager_init ''never'' 0) = Inl SessionNotFoundError"
proof -
  let ?m1 = "snd (create_session manager_init None '''' 0 ''s1'' 0)"
  have no_data: "fmlookup (session_data manager_init) ''never'' = None"
    by (simp add: manager_init_def)
  have no_session: "fmlookup (active_sessions manager_init) ''never'' = None"
    by (simp add: manager_init_def)
  have idle: "fst (can_cleanup_session ?m1 ''s1'')"
    by (simp add: can_cleanup_iff first_session_tables processing_files_get_def)
  show ?thesis
    using no_data no_session idle
      C10_get_session_data [of manager_init "''never''" 0]
      C10_get_session_data [of "snd (get_session_data manager_init ''never'')" "''never''" 0]
      C10_get_session_data [of ?m1 "''s1''" 0]
    by simp
qed

section \<open>Fetching a session\<close>

lemma get_session_absent:
  assumes "fmlookup (active_sessions m) sid = None"
  shows "get_session m sid now = (Inl SessionNotFoundError, m)"
  using assms by (simp add: get_session_def load_session_from_storage_def)

lemma get_session_live:
  assumes "fmlookup (active_sessions m) sid = Some s" and "now \<le> expires_at s"
  shows "get_session m sid now = (Inr s, m)"
  using assms by (simp add: get_session_def is_expired_def)

lemma get_session_expired:
  assumes "fmlookup (active_sessions m) sid = Some s" and "expires_at s < now"
  shows "get_session m sid now = (Inl SessionNotFoundError, snd (end_session m sid))"
  using assms by (simp add: get_session_def is_expired_def split: prod.splits)

lemma update_session_state_live:
  assumes "fmlookup (active_sessions m) sid = Some s" and "now \<le> expires_at s"
  shows "fst (update_session_state m sid new now now' j) = Inr ((state s, new) \<in> legal_edges)"
    and "(state s, new) \<notin> legal_edges \<Longrightarrow> snd (update_session_state m sid new now now' j) = m"
    and "(state s, new) \<in> legal_edges \<Longrightarrow>
           fmlookup (active_sessions (snd (update_session_state m sid new now now' j))) sid
             = Some (s\<lparr>state := new, last_updated := now'\<rparr>)"
  using assms
  by (auto simp: update_session_state_def get_session_live update_state_def
      is_valid_state_transition_edges save_session_metadata_def Let_def)

lemma update_session_state_absent:
  assumes "fmlookup (active_sessions m) sid = None"
  shows "update_session_state m sid new now now' j = (Inr False, m)"
  using assms by (simp add: update_session_state_def get_session_absent)

text \<open>
  Claim C6 as stated (an expired session is evicted from the registry before the error
  is raised) fails on the code: a session with a busy marker, fetched one microsecond
  after its deadline, is reported as not found and is still in the registry
  afterwards, because \<^verbatim>\<open>end_session\<close> only schedules the deferred check for it.
\<close>

theorem C6_counterexample:
  "fmlookup
     (active_sessions
        (snd (mark_file_processing (snd (create_session manager_init None '''' 0 ''s1'' 0))
                ''s1'' ''audio/original/a.wav'' ''transcriber''))) ''s1''
     = Some ((create_new 0 ''s1'' '''' None 4)\<lparr>workspace_path := Some (get_session_path ''s1'')\<rparr>)
   \<and> is_expired ((create_new 0 ''s1'' '''' None 4)\<lparr>workspace_path := Some (get_session_path ''s1'')\<rparr>)
        14400000001
   \<and> fst (get_session
            (snd (mark_file_processing (snd (create_session manager_init None '''' 0 ''s1'' 0))
                    ''s1'' ''audio/original/a.wav'' ''transcriber''))
            ''s1'' 14400000001) = Inl SessionNotFoundError
   \<and> fmlookup
        (active_sessions
           (snd (get_session
                   (snd (mark_file_processing (snd (create_session manager_init None '''' 0 ''s1'' 0))
                           ''s1'' ''audio/original/a.wav'' ''transcriber''))
                   ''s1'' 14400000001))) ''s1''
       = Some ((create_new 0 ''s1'' '''' None 4)\<lparr>workspace_path := Some (get_session_path ''s1'')\<rparr>)"
proof -
  let ?m1 = "snd (create_session manager_init None '''' 0 ''s1'' 0)"
  let ?m2 = "snd (mark_file_processing ?m1 ''s1'' ''audio/original/a.wav'' ''transcriber'')"
  let ?s = "(create_new 0 ''s1'' '''' None 4)\<lparr>workspace_path := Some (get_session_path ''s1'')\<rparr>"
  have look: "fmlookup (active_sessions ?m2) ''s1'' = Some ?s"
    by (simp add: mark_keeps_tables create_session_lookup(2)[OF manager_init_room])
  have late: "expires_at ?s < 14400000001"
    by (simp add: create_new_expiry)
  have busy: "\<not> fst (can_cleanup_session ?m2 ''s1'')"
    by (simp add: can_cleanup_iff busy_after_mark)
  have g: "get_session ?m2 ''s1'' 14400000001
             = (Inl SessionNotFoundError, ?m2\<lparr>deferred := deferred ?m2 @ [(''s1'', 5)]\<rparr>)"
    by (simp add: get_session_expired[OF look late] end_session_busy[OF busy])
  show ?thesis
    using look late by (simp add: g is_expired_def)
qed

text \<open>
  Claim C6, amended. \<^verbatim>\<open>get_session\<close> raises \<^verbatim>\<open>SessionNotFoundError\<close> and
  changes nothing when the identifier is not in the registry. For a session whose
  deadline has passed it raises \<^verbatim>\<open>SessionNotFoundError\<close> too; before that, if the
  busy-set of the session is empty, the session is removed from the registry and from
  the session data and its workspace is deleted; if the busy-set is not empty, the
  manager is left as it was except that one deferred check is scheduled.
\<close>

theorem C6_get_session:
  "(fmlookup (active_sessions m) sid = None \<longrightarrow>
      get_session m sid now = (Inl SessionNotFoundError, m))
   \<and> (\<forall>s. fmlookup (active_sessions m) sid = Some s \<and> expires_at s < now \<longrightarrow>
          fst (get_session m sid now) = Inl SessionNotFoundError
          \<and> (fst (can_cleanup_session m sid) \<longrightarrow>
               fmlookup (active_sessions (snd (get_session m sid now))) sid = None
               \<and> fmlookup (session_data (snd (get_session m sid now))) sid = None
               \<and> \<not> path_exists (fs (snd (get_session m sid now))) (get_session_path sid))
          \<and> (\<not> fst (can_cleanup_session m sid) \<longrightarrow>
               snd (get_session m sid now) = m\<lparr>deferred := deferred m @ [(sid, 5)]\<rparr>))"
proof (intro conjI allI impI)
  assume "fmlookup (active_sessions m) sid = None"
  then show "get_session m sid now = (Inl SessionNotFoundError, m)"
    by (rule get_session_absent)
next
  fix s
  assume a: "fmlookup (active_sessions m) sid = Some s \<and> expires_at s < now"
  then have g: "get_session m sid now = (Inl SessionNotFoundError, snd (end_session m sid))"
    by (simp add: get_session_expired)
  show "fst (get_session m sid now) = Inl SessionNotFoundError"
    by (simp add: g)
  {
    assume idle: "fst (can_cleanup_session m sid)"
    note e = end_session_idle[OF idle]
    show "fmlookup (active_sessions (snd (get_session m sid now))) sid = None"
      by (simp add: g e)
    show "fmlookup (session_data (snd (get_session m sid now))) sid = None"
      by (simp add: g e)
    show "\<not> path_exists (fs (snd (get_session m sid now))) (get_session_path sid)"
      by (simp add: g e path_exists_rmtree)
  }
  {
    assume busy: "\<not> fst (can_cleanup_session m sid)"
    show "snd (get_session m sid now) = m\<lparr>deferred := deferred m @ [(sid, 5)]\<rparr>"
      by (simp add: g end_session_busy[OF busy])
  }
qed

theorem C6_get_session_witness:
  "fmlookup (active_sessions manager_init) ''gone'' = None
   \<and> get_session manager_init ''gone'' 0 = (Inl SessionNotFoundError, manager_init)
   \<and> fmlookup (active_sessions (snd (create_session manager_init None '''' 0 ''s1'' 0))) ''s1''
       = Some ((create_new 0 ''s1'' '''' None 4)\<lparr>workspace_path := Some (get_session_path ''s1'')\<rparr>)
   \<and> expires_at ((create_new 0 ''s1'' '''' None 4)\<lparr>workspace_path := Some (get_session_path ''s1'')\<rparr>)
       < 14400000001
   \<and> fst (can_cleanup_session (snd (create_session manager_init None '''' 0 ''s1'' 0)) ''s1'')
   \<and> fst (get_session (snd (create_session manager_init None '''' 0 ''s1'' 0)) ''s1'' 14400000001)
       = Inl SessionNotFoundError
   \<and> fmlookup
        (active_sessions
           (snd (get_session (snd (create_session manager_init None '''' 0 ''s1'' 0)) ''s1''
                   14400000001))) ''s1'' = None
   \<and> \<not> fst (can_cleanup_session
              (snd (mark_file_processing (snd (create_session manager_init None '''' 0 ''s1'' 0))
                      ''s1'' ''audio/original/a.wav'' ''transcriber'')) ''s1'')
   \<and> deferred
        (snd (get_session
                (snd (mark_file_processing (snd (create_session manager_init None '''' 0 ''s1'' 0))
                        ''s1'' ''audio/original/a.wav'' ''transcriber''))
                ''s1'' 14400000001)) = [(''s1'', 5)]"
proof -
  let ?m1 = "snd (create_session manager_init None '''' 0 ''s1'' 0)"
  let ?m2 = "snd (mark_file_processing ?m1 ''s1'' ''audio/original/a.wav'' ''transcriber'')"
  let ?s = "(create_new 0 ''s1'' '''' None 4)\<lparr>workspace_path := Some (get_session_path ''s1'')\<rparr>"
  have absent: "fmlookup (active_sessions manager_init) ''gone'' = None"
    by (simp add: manager_init_def)
  have look1: "fmlookup (active_sessions ?m1) ''s1'' = Some ?s"
    by (simp add: create_session_lookup(2)[OF manager_init_room])
  have look2: "fmlookup (active_sessions ?m2) ''s1'' = Some ?s"
    by (simp add: mark_keeps_tables look1)
  have late: "expires_at ?s < 14400000001"
    by (simp add: create_new_expiry)
  have idle: "fst (can_cleanup_session ?m1 ''s1'')"
    by (simp add: can_cleanup_iff first_session_tables processing_files_get_def)
  have busy: "\<not> fst (can_cleanup_session ?m2 ''s1'')"
    by (simp add: can_cleanup_iff busy_after_mark)
  have none: "deferred ?m2 = []"
    by (simp add: mark_keeps_tables first_session_tables)
  show ?thesis
    using absent look1 look2 late idle busy none
      C6_get_session [of manager_init "''gone''" 0]
      C6_get_session [of ?m1 "''s1''" 14400000001]
      C6_get_session [of ?m2 "''s1''" 14400000001]
    by simp
qed

section \<open>Storage quota\<close>

lemma rglob_size_empty: "rglob_size fmempty p = 0"
  by (simp add: rglob_size_def)

lemma rglob_size_fmupd:
  "rglob_size (fmupd q v fsys) p
     = (if strict_prefix p q then file_bytes (Some v) else 0) + rglob_size (fmdrop q fsys) p"
proof -
  let ?g = "\<lambda>f x. if strict_prefix p x then file_bytes (fmlookup f x) else 0"
  have "rglob_size (fmupd q v fsys) p
          = (\<Sum>x \<in> insert q (fset (fmdom fsys)). ?g (fmupd q v fsys) x)"
    by (simp add: rglob_size_def)
  also have "\<dots> = ?g (fmupd q v fsys) q + (\<Sum>x \<in> fset (fmdom fsys) - {q}. ?g (fmupd q v fsys) x)"
    by (simp add: sum.insert_remove)
  also have "(\<Sum>x \<in> fset (fmdom fsys) - {q}. ?g (fmupd q v fsys) x)
               = (\<Sum>x \<in> fset (fmdom fsys) - {q}. ?g (fmdrop q fsys) x)"
    by (intro sum.cong) auto
  also have "\<dots> = rglob_size (fmdrop q fsys) p"
    by (simp add: rglob_size_def)
  finally show ?thesis by simp
qed

lemma rglob_size_fmupd_fresh:
  assumes "q |\<notin>| fmdom fsys"
  shows "rglob_size (fmupd q v fsys) p
           = (if strict_prefix p q then file_bytes (Some v) else 0) + rglob_size fsys p"
  using assms by (simp add: rglob_size_fmupd fmdrop_idle)

lemma rglob_size_mkdir_parents: "rglob_size (mkdir_parents fsys q) p = rglob_size fsys p"
proof -
  have "rglob_size (fold (\<lambda>q f. if q |\<in>| fmdom f then f else fmupd q Dir f) qs fsys) p
          = rglob_size fsys p" for qs
    by (induction qs arbitrary: fsys) (simp_all add: rglob_size_fmupd_fresh)
  then show ?thesis by (simp add: mkdir_parents_def)
qed

lemma check_storage_quota_eq:
  "check_storage_quota m sid n
     = (int (get_session_storage_size m sid) + n \<le> MAX_SESSION_STORAGE
          \<and> int (get_total_storage_size m) + n \<le> MAX_TOTAL_STORAGE, m)"
  by (auto simp: check_storage_quota_def cleanup_oldest_sessions_def Let_def)







section \<open>Streaming upload\<close>

lemma rglob_size_fmdrop_le: "rglob_size (fmdrop q fsys) p \<le> rglob_size fsys p"
proof (cases "fmlookup fsys q")
  case None
  then show ?thesis by (simp add: fmdrop_idle fmdom_notI)
next
  case (Some v)
  then have "fmupd q v (fmdrop q fsys) = fsys"
    by (intro fmap_ext) auto
  then have "rglob_size fsys p
               = (if strict_prefix p q then file_bytes (Some v) else 0)
                 + rglob_size (fmdrop q (fmdrop q fsys)) p"
    using rglob_size_fmupd[of q v "fmdrop q fsys" p] by simp
  then show ?thesis by simp
qed

lemma rglob_size_fmupd_le:
  "rglob_size (fmupd q v fsys) p \<le> file_bytes (Some v) + rglob_size fsys p"
  using rglob_size_fmdrop_le[of q fsys p] by (simp add: rglob_size_fmupd)

lemma create_session_workspace_size:
  "rglob_size (fs (snd (create_session_workspace m sid))) p = rglob_size (fs m) p"
  by (simp add: create_session_workspace_def Let_def rglob_size_mkdir_parents)

lemma create_session_size_le:
  assumes "fcard (fmdom (active_sessions m)) < MAX_CONCURRENT_SESSIONS"
  shows "rglob_size (fs (snd (create_session m p ua now uuid j))) q \<le> j + rglob_size (fs m) q"
  using rglob_size_fmupd_le[of "get_session_path uuid @ [''metadata'', ''session.json'']" "File j"
      "mkdir_parents (fs (snd (create_session_workspace m uuid))) (get_session_path uuid @ [''metadata''])" q]
  by (simp add: create_session_fs[OF assms] rglob_size_mkdir_parents create_session_workspace_size)

lemma write_chunks_errors:
  assumes "write_chunks fsys fp t cs = (Some e, fsys')"
  shows "(e = StorageQuotaExceededError \<and> \<not> path_exists fsys' fp) \<or> e = OSError"
  using assms
proof (induction fsys fp t cs rule: write_chunks.induct)
  case (1 fsys fp t)
  then show ?case by simp
next
  case (2 fsys fp t rest)
  then show ?case by simp
next
  case (3 fsys fp t n rest)
  show ?case
  proof (cases "n = 0")
    case True
    with "3.prems" show ?thesis by simp
  next
    case False
    show ?thesis
    proof (cases "int (t + n) > MAX_SESSION_STORAGE")
      case True
      with False "3.prems" show ?thesis
        by (auto simp: Let_def unlink_def path_exists_def)
    next
      case over: False
      with False "3.prems" "3.IH"[OF False refl refl over] show ?thesis
        by (simp add: Let_def)
    qed
  qed
qed

lemma write_chunks_over:
  assumes "\<forall>c \<in> set cs. \<exists>n > 0. c = Chunk n"
    and "int (t + sum_list (map chunk_bytes cs)) > MAX_SESSION_STORAGE"
    and "int t \<le> MAX_SESSION_STORAGE"
  shows "fst (write_chunks fsys fp t cs) = Some StorageQuotaExceededError"
  using assms
proof (induction cs arbitrary: fsys t)
  case Nil
  then show ?case by simp
next
  case (Cons c cs)
  from Cons.prems(1) obtain n where n: "c = Chunk n" "n > 0" by auto
  show ?case
  proof (cases "int (t + n) > MAX_SESSION_STORAGE")
    case True
    with n show ?thesis by (simp add: Let_def)
  next
    case False
    have "fst (write_chunks (fmupd fp (File (t + n)) fsys) fp (t + n) cs)
            = Some StorageQuotaExceededError"
      using Cons.prems n False by (intro Cons.IH) (auto simp: add.assoc)
    with n False show ?thesis by (simp add: Let_def)
  qed
qed

lemma save_large_file_precheck:
  assumes "\<not> fst (check_storage_quota m sid 0)"
  shows "save_large_file m sid cs ft fn = (Inl StorageQuotaExceededError, m)"
  using assms
  by (simp add: save_large_file_def estimate_stream_size_def check_storage_quota_eq Let_def)

lemma save_large_file_failure:
  assumes "fst (check_storage_quota m sid 0)"
    and "fst (save_large_file m sid cs ft fn) = Inl e"
  shows "e = SessionStorageError
         \<and> \<not> path_exists (fs (snd (save_large_file m sid cs ft fn)))
               (get_session_path sid @ [''files''] @ ft @ [fn])"
proof -
  let ?fp = "get_session_path sid @ [''files''] @ ft @ [fn]"
  let ?lock = "get_session_path sid @ [''metadata'', ''locks'', fn @ ''.lock'']"
  let ?fs1 = "mkdir_parents (fs m) (butlast ?lock)"
  let ?fs2 = "if path_exists ?fs1 ?lock then ?fs1 else fmupd ?lock (File 0) ?fs1"
  let ?fs4 = "fmupd ?fp (File 0) (mkdir_parents ?fs2 (butlast ?fp))"
  obtain r fs5 where w: "write_chunks ?fs4 ?fp 0 cs = (r, fs5)"
    by (cases "write_chunks ?fs4 ?fp 0 cs")
  have q: "check_storage_quota m sid 0 = (True, m)"
    using assms(1) by (simp add: check_storage_quota_eq)
  have s: "save_large_file m sid cs ft fn =
             (case r of
                None \<Rightarrow> (Inr ?fp, m\<lparr>fs := fs5\<rparr>)
              | Some e \<Rightarrow>
                  (Inl SessionStorageError,
                   m\<lparr>fs := (if path_exists fs5 ?fp then unlink fs5 ?fp else fs5)\<rparr>))"
    using w
    by (simp add: save_large_file_def estimate_stream_size_def q Let_def split: option.splits)
  show ?thesis
  proof (cases r)
    case None
    with s assms(2) show ?thesis by simp
  next
    case (Some e')
    with s assms(2) show ?thesis
      by (auto simp: unlink_def path_exists_def)
  qed
qed

lemma save_large_file_over_quota:
  assumes "fst (check_storage_quota m sid 0)"
    and "\<forall>c \<in> set cs. \<exists>n > 0. c = Chunk n"
    and "int (sum_list (map chunk_bytes cs)) > MAX_SESSION_STORAGE"
  shows "fst (save_large_file m sid cs ft fn) = Inl SessionStorageError"
proof -
  let ?fp = "get_session_path sid @ [''files''] @ ft @ [fn]"
  let ?lock = "get_session_path sid @ [''metadata'', ''locks'', fn @ ''.lock'']"
  let ?fs1 = "mkdir_parents (fs m) (butlast ?lock)"
  let ?fs2 = "if path_exists ?fs1 ?lock then ?fs1 else fmupd ?lock (File 0) ?fs1"
  let ?fs4 = "fmupd ?fp (File 0) (mkdir_parents ?fs2 (butlast ?fp))"
  have "fst (write_chunks ?fs4 ?fp 0 cs) = Some StorageQuotaExceededError"
    using assms(2,3) by (intro write_chunks_over) (simp_all add: MAX_SESSION_STORAGE_def)
  then obtain fs5 where w: "write_chunks ?fs4 ?fp 0 cs = (Some StorageQuotaExceededError, fs5)"
    by (cases "write_chunks ?fs4 ?fp 0 cs") simp
  have q: "check_storage_quota m sid 0 = (True, m)"
    using assms(1) by (simp add: check_storage_quota_eq)
  show ?thesis
    using w by (simp add: save_large_file_def estimate_stream_size_def q Let_def)
qed

lemma first_session_sizes:
  "get_session_storage_size (snd (create_session manager_init p ua now uuid j)) sid \<le> j"
  "get_total_storage_size (snd (create_session manager_init p ua now uuid j)) \<le> j"
proof -
  have "rglob_size (fs manager_init) q = 0" for q
    by (simp add: manager_init_def rglob_size_empty)
  then have "rglob_size (fs (snd (create_session manager_init p ua now uuid j))) q \<le> j" for q
    using create_session_size_le[OF manager_init_room, of p ua now uuid j q] by simp
  then show "get_session_storage_size (snd (create_session manager_init p ua now uuid j)) sid \<le> j"
    and "get_total_storage_size (snd (create_session manager_init p ua now uuid j)) \<le> j"
    by (simp_all add: get_session_storage_size_def get_total_storage_size_def Let_def)
qed

text \<open>
  Claim C3, on a stream of 100 MiB and one byte, delivered in a hundred chunks of
  1 MiB and a last chunk of one byte, saved into a session that was just created
  (so the quota check before the write passes). The loop raises
  \<^verbatim>\<open>StorageQuotaExceededError\<close> at the last chunk, after unlinking the file; the
  enclosing \<^verbatim>\<open>except Exception\<close> catches it, and what \<^verbatim>\<open>save_large_file\<close>
  raises is \<^verbatim>\<open>SessionStorageError\<close>. No file is left at the destination. A stream
  that fails after its first chunk also ends in \<^verbatim>\<open>SessionStorageError\<close> with no
  file left. (For every stream: \<open>save_large_file_failure\<close> and
  \<open>save_large_file_over_quota\<close> above.)
\<close>

theorem C3_quota_abort_surfaces_storage_error:
  "fst (check_storage_quota (snd (create_session manager_init None '''' 0 ''s1'' 400)) ''s1'' 0)
   \<and> fst (write_chunks fmempty [''sessions'', ''s1'', ''files'', ''audio'', ''original'', ''a.wav'']
             0 (replicate 100 (Chunk 1048576) @ [Chunk 1]))
       = Some StorageQuotaExceededError
   \<and> fst (save_large_file (snd (create_session manager_init None '''' 0 ''s1'' 400)) ''s1''
             (replicate 100 (Chunk 1048576) @ [Chunk 1]) [''audio'', ''original''] ''a.wav'')
       = Inl SessionStorageError
   \<and> \<not> path_exists
          (fs (snd (save_large_file (snd (create_session manager_init None '''' 0 ''s1'' 400)) ''s1''
                      (replicate 100 (Chunk 1048576) @ [Chunk 1]) [''audio'', ''original'']
                      ''a.wav'')))
          [''sessions'', ''s1'', ''files'', ''audio'', ''original'', ''a.wav'']
   \<and> fst (save_large_file (snd (create_session manager_init None '''' 0 ''s1'' 400)) ''s1''
             [Chunk 1048576, IOFailure] [''audio'', ''original''] ''a.wav'')
       = Inl SessionStorageError
   \<and> \<not> path_exists
          (fs (snd (save_large_file (snd (create_session manager_init None '''' 0 ''s1'' 400)) ''s1''
                      [Chunk 1048576, IOFailure] [''audio'', ''original''] ''a.wav'')))
          [''sessions'', ''s1'', ''files'', ''audio'', ''original'', ''a.wav'']"
proof -
  let ?m1 = "snd (create_session manager_init None '''' 0 ''s1'' 400)"
  let ?big = "replicate 100 (Chunk 1048576) @ [Chunk 1]"
  have pre: "fst (check_storage_quota ?m1 ''s1'' 0)"
    using first_session_sizes(1)[of None "''''" 0 "''s1''" 400 "''s1''"]
      first_session_sizes(2)[of None "''''" 0 "''s1''" 400]
    by (simp add: check_storage_quota_eq MAX_SESSION_STORAGE_def MAX_TOTAL_STORAGE_def)
  have chunks: "\<forall>c \<in> set ?big. \<exists>n > 0. c = Chunk n"
    by auto
  have bytes: "int (sum_list (map chunk_bytes ?big)) > MAX_SESSION_STORAGE"
    by (simp add: sum_list_replicate MAX_SESSION_STORAGE_def)
  have loop: "fst (write_chunks fmempty [''sessions'', ''s1'', ''files'', ''audio'', ''original'', ''a.wav'']
                     0 ?big) = Some StorageQuotaExceededError"
    using chunks bytes by (intro write_chunks_over) (simp_all add: MAX_SESSION_STORAGE_def)
  have big: "fst (save_large_file ?m1 ''s1'' ?big [''audio'', ''original''] ''a.wav'')
               = Inl SessionStorageError"
    by (rule save_large_file_over_quota[OF pre chunks bytes])
  have io: "fst (save_large_file ?m1 ''s1'' [Chunk 1048576, IOFailure] [''audio'', ''original'']
                   ''a.wav'') = Inl SessionStorageError"
    using pre
    by (simp add: save_large_file_def estimate_stream_size_def check_storage_quota_eq Let_def
        MAX_SESSION_STORAGE_def)
  show ?thesis
    using pre loop big io
      save_large_file_failure[OF pre big] save_large_file_failure[OF pre io]
    by (simp add: get_session_path_def)
qed

end
